theory Spec2Isabelle
  imports
    Main
    "HOL-Library.Char_ord"
    "HOL-Library.List_Lexorder"
    "HOL-Library.Product_Lexorder"
    "HOL-Library.Multiset"
    "HOL-Library.Sublist"
begin

section \<open>Electronics inventory: strings of the host language\<close>

text \<open>
  A Python \<open>str\<close> is modelled as a \<open>string\<close> whose characters are code points below
  256. \<open>str.strip()\<close> removes leading and trailing white space; below 256 the code
  points for which \<open>str.isspace\<close> holds are 9 to 13, 28 to 32, 133 and 160.
\<close>

definition is_space :: "char \<Rightarrow> bool" where
  "is_space c = ((of_char c :: nat) \<in> {9, 10, 11, 12, 13, 28, 29, 30, 31, 32, 133, 160})"

definition strip :: "string \<Rightarrow> string" where
  "strip s = rev (dropWhile is_space (rev (dropWhile is_space s)))"

definition is_digit :: "char \<Rightarrow> bool" where
  "is_digit c = (48 \<le> (of_char c :: nat) \<and> (of_char c :: nat) \<le> 57)"

definition digit_val :: "char \<Rightarrow> int" where
  "digit_val c = int (of_char c) - 48"

definition digit_char :: "nat \<Rightarrow> char" where
  "digit_char d = char_of (48 + d)"

text \<open>
  \<open>int(value)\<close> on a string, base ten: surrounding white space is ignored, one sign is
  allowed, then at least one digit; a single underscore may stand between two digits.
  Anything else raises \<open>ValueError\<close>, the value \<open>None\<close> here.
\<close>

fun digits_run :: "string \<Rightarrow> int \<Rightarrow> int option" where
  "digits_run [] acc = None"
| "digits_run (c # cs) acc =
     (if is_digit c then
        (let acc' = acc * 10 + digit_val c in
         case cs of
           [] \<Rightarrow> Some acc'
         | d # ds \<Rightarrow> if d = CHR ''_'' then digits_run ds acc' else digits_run cs acc')
      else None)"

definition py_int :: "string \<Rightarrow> int option" where
  "py_int s =
     (case strip s of
        [] \<Rightarrow> None
      | c # r \<Rightarrow>
          if c = CHR ''-'' then map_option uminus (digits_run r 0)
          else if c = CHR ''+'' then digits_run r 0
          else digits_run (c # r) 0)"

text \<open>\<open>str(n)\<close> on an integer: the decimal digits, with a minus sign when negative.\<close>

fun digits_of :: "nat \<Rightarrow> string" where
  "digits_of n = (if n < 10 then [digit_char n] else digits_of (n div 10) @ [digit_char (n mod 10)])"

declare digits_of.simps [simp del]

definition py_str :: "int \<Rightarrow> string" where
  "py_str n = (if n < 0 then CHR ''-'' # digits_of (nat (- n)) else digits_of (nat n))"


section \<open>The store\<close>

text \<open>
  A value of the \<open>quantity\<close> column. The column is declared \<open>INTEGER NOT NULL\<close>;
  the engine stores an integer bound to it as an integer, and a text bound to it as the
  integer it denotes when the text is an integer literal (column affinity), as text
  otherwise. Integers are unbounded in the model; the 64-bit range of the engine and its
  conversion of other numeric literals are outside it.
\<close>

datatype sql_value = SqlInteger int | SqlText string

fun literal_digits :: "string \<Rightarrow> int \<Rightarrow> int option" where
  "literal_digits [] acc = Some acc"
| "literal_digits (c # cs) acc =
     (if is_digit c then literal_digits cs (acc * 10 + digit_val c) else None)"

definition integer_literal :: "string \<Rightarrow> int option" where
  "integer_literal s =
     (case s of
        [] \<Rightarrow> None
      | c # r \<Rightarrow>
          if c = CHR ''-'' then (if r = [] then None else map_option uminus (literal_digits r 0))
          else if c = CHR ''+'' then (if r = [] then None else literal_digits r 0)
          else literal_digits (c # r) 0)"

definition integer_affinity :: "string \<Rightarrow> sql_value" where
  "integer_affinity s = (case integer_literal s of Some n \<Rightarrow> SqlInteger n | None \<Rightarrow> SqlText s)"

text \<open>
  A row of \<open>parts\<close>, with the columns the handlers read and write. \<open>category\<close>,
  \<open>description\<close> and \<open>updated_at\<close> are \<open>NOT NULL\<close>; the other text columns may hold
  \<open>NULL\<close>, the value \<open>None\<close>. \<open>updated_at\<close> is the text \<open>datetime('now')\<close> returns.
\<close>

record part =
  id_col :: int
  category :: string
  subcategory :: "string option"
  description :: string
  package :: "string option"
  container_id :: "string option"
  quantity :: sql_value
  notes_col :: "string option"
  datasheet_url :: "string option"
  pinout_url :: "string option"
  updated_at :: string

text \<open>
  The database: the rows of \<open>parts\<close> in insertion order, the largest id the table has
  ever held (\<open>AUTOINCREMENT\<close>), and the three lookup tables.
\<close>

record db =
  parts :: "part list"
  seq :: int
  containers :: "(string \<times> string) list"
  categories :: "string list"
  subcategories :: "string list"

text \<open>
  Modelled from the spec: the declarations of the tables \<open>containers\<close>, \<open>categories\<close>
  and \<open>subcategories\<close> are not in the source. The spec gives \<open>containers (code, name)\<close>,
  \<open>categories (name)\<close>, \<open>subcategories (name)\<close>, a container "identified by a code" and
  a category or subcategory "identified by name": the identifying column is a unique key.
  \<open>INSERT OR IGNORE\<close> then skips a row whose key is already stored and appends it otherwise.
\<close>

definition insert_or_ignore :: "('r \<Rightarrow> 'k) \<Rightarrow> 'r \<Rightarrow> 'r list \<Rightarrow> 'r list" where
  "insert_or_ignore key row rows = (if key row \<in> key ` set rows then rows else rows @ [row])"

text \<open>
  The three ensure operations of \<open>db.py\<close>. On a \<open>str\<close> the expression
  \<open>(code or "")\<close> is the string itself.
\<close>

definition ensure_container :: "db \<Rightarrow> string \<Rightarrow> db" where
  "ensure_container d code =
     (let code = strip code in
      if code = [] then d
      else d\<lparr>containers := insert_or_ignore fst (code, code) (containers d)\<rparr>)"

definition ensure_category :: "db \<Rightarrow> string \<Rightarrow> db" where
  "ensure_category d name =
     (let name = strip name in
      if name = [] then d
      else d\<lparr>categories := insert_or_ignore (\<lambda>n. n) name (categories d)\<rparr>)"

definition ensure_subcategory :: "db \<Rightarrow> string \<Rightarrow> db" where
  "ensure_subcategory d name =
     (let name = strip name in
      if name = [] then d
      else d\<lparr>subcategories := insert_or_ignore (\<lambda>n. n) name (subcategories d)\<rparr>)"

text \<open>The number of stored rows of a lookup table that carry a given key.\<close>

definition entries_with :: "('r \<Rightarrow> 'k) \<Rightarrow> 'k \<Rightarrow> 'r list \<Rightarrow> nat" where
  "entries_with key k rows = length (filter (\<lambda>r. key r = k) rows)"


section \<open>Filtered listing\<close>

text \<open>
  The engine's \<open>LIKE\<close>, as \<open>fetch_parts\<close> uses it (no \<open>ESCAPE\<close> clause, the default
  case folding): in the pattern \<open>%\<close> stands for any run of characters, \<open>_\<close> for any
  one character, and any other character for itself, the ASCII letters compared without
  regard to case. \<open>LIKE\<close> on \<open>NULL\<close> is not true.
\<close>

definition ascii_lower :: "char \<Rightarrow> char" where
  "ascii_lower c =
     (if 65 \<le> (of_char c :: nat) \<and> (of_char c :: nat) \<le> 90 then char_of ((of_char c :: nat) + 32) else c)"

fun like :: "string \<Rightarrow> string \<Rightarrow> bool" where
  "like [] [] = True"
| "like [] (d # s) = False"
| "like (c # p) [] = (c = CHR ''%'' \<and> like p [])"
| "like (c # p) (d # s) =
     (if c = CHR ''%'' then like p (d # s) \<or> like (c # p) s
      else if c = CHR ''_'' then like p s
      else ascii_lower c = ascii_lower d \<and> like p s)"

definition like_null :: "string option \<Rightarrow> string \<Rightarrow> bool" where
  "like_null v pat = (case v of None \<Rightarrow> False | Some s \<Rightarrow> like pat s)"

text \<open>
  The fragments \<open>fetch_parts\<close> appends to \<open>WHERE 1=1\<close>, each with its bound parameter.
  A row is selected when every fragment is true of it.
\<close>

datatype where_term = TextLike string | CategoryEq string | ContainerEq string

fun holds :: "where_term \<Rightarrow> part \<Rightarrow> bool" where
  "holds (TextLike pat) p =
     (like pat (description p) \<or> like_null (notes_col p) pat
      \<or> like_null (subcategory p) pat \<or> like_null (package p) pat)"
| "holds (CategoryEq c) p = (category p = c)"
| "holds (ContainerEq c) p = (container_id p = Some c)"

text \<open>\<open>ORDER BY updated_at DESC, id DESC\<close> and \<open>LIMIT ?\<close> (a negative limit is no limit).\<close>

definition order_key :: "part \<Rightarrow> string \<times> int" where
  "order_key p = (updated_at p, id_col p)"

definition order_by_updated_desc :: "part list \<Rightarrow> part list" where
  "order_by_updated_desc ps = rev (sort_key order_key ps)"

definition sql_limit :: "int \<Rightarrow> 'a list \<Rightarrow> 'a list" where
  "sql_limit n rows = (if n < 0 then rows else take (nat n) rows)"

definition fetch_parts :: "db \<Rightarrow> string \<Rightarrow> string \<Rightarrow> string \<Rightarrow> int \<Rightarrow> part list" where
  "fetch_parts d q category' container_id' limit =
     (let terms =
            (if strip q \<noteq> [] then [TextLike (''%'' @ strip q @ ''%'')] else [])
          @ (if strip category' \<noteq> [] then [CategoryEq (strip category')] else [])
          @ (if strip container_id' \<noteq> [] then [ContainerEq (strip container_id')] else [])
      in sql_limit limit
           (order_by_updated_desc (filter (\<lambda>p. list_all (\<lambda>t. holds t p) terms) (parts d))))"






section \<open>Handlers\<close>

text \<open>
  A response is either a short text with a status code or a rendered template with
  the values handed to it; rendering itself belongs to the template engine.
\<close>

datatype label = AssetLabel string string | ContentLabel string string

datatype response =
    ErrorResponse nat string
  | TableFragment "part list"
  | RowFragment part
  | EditCellFragment part string "(string \<times> string) list" "string list"
  | LabelsPage string "label list"

definition ALLOWED_EDIT_FIELDS :: "string set" where
  "ALLOWED_EDIT_FIELDS =
     {''category'', ''subcategory'', ''description'', ''package'', ''container_id'',
      ''quantity'', ''notes'', ''datasheet_url'', ''pinout_url''}"

definition BASE_URL :: string where
  "BASE_URL = ''http://192.168.8.20:8001''"

definition list_containers :: "db \<Rightarrow> (string \<times> string) list" where
  "list_containers d = sort_key fst (containers d)"

definition list_categories :: "db \<Rightarrow> string list" where
  "list_categories d = sort_key (\<lambda>n. n) (categories d)"

text \<open>\<open>AUTOINCREMENT\<close>: the new id is one more than the largest id the table ever held.\<close>

definition next_id :: "db \<Rightarrow> int" where
  "next_id d = fold max (map id_col (parts d)) (seq d) + 1"

text \<open>
  \<open>POST /parts\<close>. The clock value \<open>now\<close> is what \<open>datetime('now')\<close> returns during the
  request. The integer \<open>quantity'\<close> is the form value after the framework has parsed it.
\<close>

definition add_part ::
  "db \<Rightarrow> string \<Rightarrow> string \<Rightarrow> string \<Rightarrow> string \<Rightarrow> string \<Rightarrow> string \<Rightarrow> int \<Rightarrow> string \<Rightarrow> string \<Rightarrow> string
     \<Rightarrow> response \<times> db" where
  "add_part d now category' subcategory' description' package' container_id' quantity' notes'
     datasheet_url' pinout_url' =
     (let category' = strip category';
          description' = strip description';
          d = ensure_category d category';
          d = ensure_container d container_id';
          d = ensure_subcategory d subcategory';
          row = \<lparr>id_col = next_id d,
                 category = category',
                 subcategory = Some (strip subcategory'),
                 description = description',
                 package = Some (strip package'),
                 container_id = Some (strip container_id'),
                 quantity = SqlInteger (max quantity' 0),
                 notes_col = Some (strip notes'),
                 datasheet_url = Some (strip datasheet_url'),
                 pinout_url = Some (strip pinout_url'),
                 updated_at = now\<rparr>;
          d = d\<lparr>parts := parts d @ [row], seq := next_id d\<rparr>
      in (TableFragment (fetch_parts d [] [] [] 500), d))"


text \<open>\<open>SELECT * FROM parts WHERE id = ?\<close> followed by \<open>fetchone()\<close>.\<close>

definition select_part :: "db \<Rightarrow> int \<Rightarrow> part option" where
  "select_part d part_id = find (\<lambda>p. id_col p = part_id) (parts d)"

text \<open>\<open>GET /parts/{part_id}/edit/{field}\<close>: it reads the store and writes nothing.\<close>

definition edit_cell :: "db \<Rightarrow> int \<Rightarrow> string \<Rightarrow> response \<times> db" where
  "edit_cell d part_id field =
     (if field \<notin> ALLOWED_EDIT_FIELDS then (ErrorResponse 400 ''Invalid field'', d)
      else case select_part d part_id of
             None \<Rightarrow> (ErrorResponse 404 ''Not found'', d)
           | Some row \<Rightarrow> (EditCellFragment row field (list_containers d) (list_categories d), d))"

text \<open>
  \<open>UPDATE parts SET {field} = ?\<close> on one row, the bound value being a text. The
  \<open>quantity\<close> column applies its integer affinity. The last branch is never reached:
  \<open>save_cell\<close> has checked the field against the allow-list.
\<close>

definition set_column :: "string \<Rightarrow> string \<Rightarrow> part \<Rightarrow> part" where
  "set_column field v p =
     (if field = ''category'' then p\<lparr>category := v\<rparr>
      else if field = ''subcategory'' then p\<lparr>subcategory := Some v\<rparr>
      else if field = ''description'' then p\<lparr>description := v\<rparr>
      else if field = ''package'' then p\<lparr>package := Some v\<rparr>
      else if field = ''container_id'' then p\<lparr>container_id := Some v\<rparr>
      else if field = ''quantity'' then p\<lparr>quantity := integer_affinity v\<rparr>
      else if field = ''notes'' then p\<lparr>notes_col := Some v\<rparr>
      else if field = ''datasheet_url'' then p\<lparr>datasheet_url := Some v\<rparr>
      else if field = ''pinout_url'' then p\<lparr>pinout_url := Some v\<rparr>
      else p)"

text \<open>The normalisation of a submitted quantity in \<open>save_cell\<close>.\<close>

definition normalize_quantity :: "string \<Rightarrow> string" where
  "normalize_quantity v =
     (let q = (if v \<noteq> [] then (case py_int v of Some n \<Rightarrow> n | None \<Rightarrow> 0) else 0)
      in py_str (max q 0))"

text \<open>\<open>POST /parts/{part_id}/edit/{field}\<close>.\<close>

definition save_cell :: "db \<Rightarrow> string \<Rightarrow> int \<Rightarrow> string \<Rightarrow> string \<Rightarrow> response \<times> db" where
  "save_cell d now part_id field v =
     (if field \<notin> ALLOWED_EDIT_FIELDS then (ErrorResponse 400 ''Invalid field'', d)
      else
        let v = strip v;
            v = (if field = ''quantity'' then normalize_quantity v else v);
            (d, v) = (if field = ''container_id'' then (ensure_container d v, v)
                      else if field = ''category'' then (ensure_category d v, v)
                      else if field = ''subcategory'' then (ensure_subcategory d v, v)
                      else if field = ''datasheet_url'' \<or> field = ''pinout_url'' then (d, strip v)
                      else (d, v));
            d = d\<lparr>parts := map (\<lambda>p. if id_col p = part_id
                                     then (set_column field v p)\<lparr>updated_at := now\<rparr> else p)
                              (parts d)\<rparr>
        in case select_part d part_id of
             None \<Rightarrow> (ErrorResponse 404 ''Not found'', d)
           | Some row \<Rightarrow> (RowFragment row, d))"

text \<open>
  \<open>POST /print/labels\<close>. The QR encoder is the imaging library's, the parameter
  \<open>qr_base64\<close>; \<open>form\<close> holds the text fields of the submitted form.
\<close>

definition form_get :: "(string \<rightharpoonup> string) \<Rightarrow> string \<Rightarrow> string" where
  "form_get form k = (case form k of None \<Rightarrow> [] | Some t \<Rightarrow> t)"

definition labels_for ::
  "(string \<Rightarrow> string) \<Rightarrow> (string \<rightharpoonup> string) \<Rightarrow> string \<Rightarrow> string \<Rightarrow> label list" where
  "labels_for qr_base64 form mode c =
     (if mode = ''asset'' \<or> mode = ''both''
      then [AssetLabel c (qr_base64 (BASE_URL @ ''/containers/'' @ c))] else [])
   @ (if mode = ''content'' \<or> mode = ''both''
      then [ContentLabel c (strip (form_get form (''text_'' @ c)))] else [])"

definition print_labels ::
  "(string \<Rightarrow> string) \<Rightarrow> (string \<rightharpoonup> string) \<Rightarrow> string \<Rightarrow> string \<Rightarrow> string list \<Rightarrow> response" where
  "print_labels qr_base64 form preset mode code =
     (if code = [] then ErrorResponse 400 ''No containers selected''
      else LabelsPage preset (concat (map (labels_for qr_base64 form mode) code)))"


section \<open>Schema creation\<close>

text \<open>
  The schema of a database file: each table with its columns (name and declaration), and
  the indexes. \<open>CREATE ... IF NOT EXISTS\<close> leaves an object of that name as it is.
\<close>

record schema =
  tables :: "(string \<times> (string \<times> string) list) list"
  indexes :: "(string \<times> string \<times> string) list"

definition create_table_if_not_exists :: "string \<Rightarrow> (string \<times> string) list \<Rightarrow> schema \<Rightarrow> schema" where
  "create_table_if_not_exists name cols s =
     (if name \<in> fst ` set (tables s) then s else s\<lparr>tables := tables s @ [(name, cols)]\<rparr>)"

definition create_index_if_not_exists :: "string \<Rightarrow> string \<Rightarrow> string \<Rightarrow> schema \<Rightarrow> schema" where
  "create_index_if_not_exists name tbl col s =
     (if name \<in> fst ` set (indexes s) then s else s\<lparr>indexes := indexes s @ [(name, tbl, col)]\<rparr>)"

definition init_db :: "schema \<Rightarrow> schema" where
  "init_db s =
     (let s = create_table_if_not_exists ''parts''
                [(''id'', ''INTEGER PRIMARY KEY AUTOINCREMENT''),
                 (''category'', ''TEXT NOT NULL''),
                 (''subcategory'', ''TEXT''),
                 (''description'', ''TEXT NOT NULL''),
                 (''package'', ''TEXT''),
                 (''container_id'', ''TEXT''),
                 (''quantity'', ''INTEGER NOT NULL DEFAULT 0''),
                 (''notes'', ''TEXT''),
                 (''updated_at'', ''TEXT NOT NULL DEFAULT (datetime('' @ [CHR 0x27] @ ''now'' @ [CHR 0x27] @ ''))'')] s;
          s = create_index_if_not_exists ''idx_parts_category'' ''parts'' ''category'' s;
          s = create_index_if_not_exists ''idx_parts_container'' ''parts'' ''container_id'' s;
          s = create_index_if_not_exists ''idx_parts_desc'' ''parts'' ''description'' s
      in s)"

definition empty_schema :: schema where
  "empty_schema = \<lparr>tables = [], indexes = []\<rparr>"

definition table_names :: "schema \<Rightarrow> string list" where
  "table_names s = map fst (tables s)"

definition column_names :: "schema \<Rightarrow> string \<Rightarrow> string list" where
  "column_names s tbl = (case map_of (tables s) tbl of None \<Rightarrow> [] | Some cols \<Rightarrow> map fst cols)"

text \<open>
  An \<open>INSERT INTO tbl (cols)\<close> is accepted when the table exists and has every named
  column; otherwise the engine raises an error.
\<close>

definition insert_accepted :: "schema \<Rightarrow> string \<Rightarrow> string list \<Rightarrow> bool" where
  "insert_accepted s tbl cols =
     (case map_of (tables s) tbl of None \<Rightarrow> False | Some cs \<Rightarrow> set cols \<subseteq> fst ` set cs)"

text \<open>The columns named by the \<open>INSERT\<close> of \<open>add_part\<close>.\<close>

definition add_part_columns :: "string list" where
  "add_part_columns =
     [''category'', ''subcategory'', ''description'', ''package'', ''container_id'',
      ''quantity'', ''notes'', ''datasheet_url'', ''pinout_url'', ''updated_at'']"

text \<open>
  The request model \<open>PartCreate\<close> of \<open>models.py\<close> and the constraints its fields
  declare. An \<open>Optional[str]\<close> field may be \<open>None\<close>.
\<close>

record PartCreate =
  pc_category :: string
  pc_subcategory :: "string option"
  pc_description :: string
  pc_package :: "string option"
  pc_container_id :: "string option"
  pc_quantity :: int
  pc_notes :: "string option"

definition max_length :: "nat \<Rightarrow> string option \<Rightarrow> bool" where
  "max_length n v = (case v of None \<Rightarrow> True | Some s \<Rightarrow> length s \<le> n)"

definition PartCreate_valid :: "PartCreate \<Rightarrow> bool" where
  "PartCreate_valid m =
     (1 \<le> length (pc_category m) \<and> length (pc_category m) \<le> 24
      \<and> max_length 64 (pc_subcategory m)
      \<and> 1 \<le> length (pc_description m) \<and> length (pc_description m) \<le> 200
      \<and> max_length 32 (pc_package m)
      \<and> max_length 32 (pc_container_id m)
      \<and> 0 \<le> pc_quantity m \<and> pc_quantity m \<le> 1000000
      \<and> max_length 1000 (pc_notes m))"


section \<open>Notions of the specification and example data\<close>



definition ex_part :: part where
  "ex_part = \<lparr>id_col = 7, category = ''Resistor'', subcategory = Some ''SMD'',
     description = ''abc 10k'', package = Some ''0805'', container_id = Some ''B12'',
     quantity = SqlInteger 5, notes_col = None, datasheet_url = None, pinout_url = None,
     updated_at = ''2024-01-01 00:00:00''\<rparr>"

definition ex_db :: db where
  "ex_db = \<lparr>parts = [ex_part], seq = 7, containers = [(''B12'', ''B12'')],
     categories = [''Resistor''], subcategories = [''SMD'']\<rparr>"

definition empty_db :: db where
  "empty_db = \<lparr>parts = [], seq = 0, containers = [], categories = [], subcategories = []\<rparr>"

definition ex_qr :: "string \<Rightarrow> string" where
  "ex_qr t = ''QR:'' @ t"


section \<open>Trimming\<close>

lemma dropWhile_rev_prefix:
  "dropWhile P (rev (dropWhile P (rev (dropWhile P s)))) = rev (dropWhile P (rev (dropWhile P s)))"
proof (cases "rev (dropWhile P (rev (dropWhile P s)))")
  case Nil
  show ?thesis unfolding Nil by simp
next
  case (Cons x xs)
  let ?a = "dropWhile P s"
  have a: "?a = rev (dropWhile P (rev ?a)) @ rev (takeWhile P (rev ?a))"
    by (metis rev_append rev_rev_ident takeWhile_dropWhile_id)
  with Cons have "hd ?a = x" and "?a \<noteq> []"
    by (metis append_Cons list.sel(1), metis Cons append_is_Nil_conv list.distinct(1))
  then have "\<not> P x" using hd_dropWhile by metis
  with Cons show ?thesis by simp
qed

lemma strip_idem: "strip (strip s) = strip s"
  by (simp add: strip_def dropWhile_rev_prefix)




section \<open>Lookup tables\<close>

lemma insert_or_ignore_member: "key row \<in> key ` set (insert_or_ignore key row rows)"
  by (simp add: insert_or_ignore_def)

lemma insert_or_ignore_idem:
  "insert_or_ignore key row (insert_or_ignore key row rows) = insert_or_ignore key row rows"
  by (simp add: insert_or_ignore_def)

lemma entries_with_absent: "k \<notin> key ` set rows \<Longrightarrow> entries_with key k rows = 0"
  by (induction rows) (auto simp: entries_with_def)

lemma entries_with_present:
  "distinct (map key rows) \<Longrightarrow> k \<in> key ` set rows \<Longrightarrow> entries_with key k rows = 1"
proof (induction rows)
  case Nil
  then show ?case by simp
next
  case (Cons r rows)
  show ?case
  proof (cases "key r = k")
    case True
    with Cons.prems have "k \<notin> key ` set rows" by auto
    then have "entries_with key k rows = 0" by (rule entries_with_absent)
    with True show ?thesis by (simp add: entries_with_def)
  next
    case False
    with Cons show ?thesis by (auto simp: entries_with_def)
  qed
qed

lemma insert_or_ignore_distinct:
  "distinct (map key rows) \<Longrightarrow> distinct (map key (insert_or_ignore key row rows))"
  by (auto simp: insert_or_ignore_def)

lemma insert_or_ignore_one:
  "distinct (map key rows) \<Longrightarrow> entries_with key (key row) (insert_or_ignore key row rows) = 1"
  by (rule entries_with_present [OF insert_or_ignore_distinct insert_or_ignore_member])

lemma ensure_parts:
  "parts (ensure_container d v) = parts d"
  "parts (ensure_category d v) = parts d"
  "parts (ensure_subcategory d v) = parts d"
  by (simp_all add: ensure_container_def ensure_category_def ensure_subcategory_def Let_def)

lemma ensure_seq:
  "seq (ensure_container d v) = seq d"
  "seq (ensure_category d v) = seq d"
  "seq (ensure_subcategory d v) = seq d"
  by (simp_all add: ensure_container_def ensure_category_def ensure_subcategory_def Let_def)


lemma next_id_ensure:
  "next_id (ensure_container d v) = next_id d"
  "next_id (ensure_category d v) = next_id d"
  "next_id (ensure_subcategory d v) = next_id d"
  by (simp_all add: next_id_def ensure_parts ensure_seq)

text \<open>
  C6. Each ensure operation is idempotent. On a lookup table that satisfies its unique
  key, calling the operation twice with a name gives the same store as calling it once,
  and the table then holds exactly one entry with that name, the name as the operation
  stores it, trimmed. A name that is empty after trimming leaves the store unchanged.
\<close>

theorem ensure_idempotent:
  assumes "distinct (map fst (containers d))" and "distinct (categories d)"
    and "distinct (subcategories d)"
  shows "ensure_container (ensure_container d name) name = ensure_container d name
       \<and> ensure_category (ensure_category d name) name = ensure_category d name
       \<and> ensure_subcategory (ensure_subcategory d name) name = ensure_subcategory d name
       \<and> (strip name \<noteq> [] \<longrightarrow>
            entries_with fst (strip name)
              (containers (ensure_container (ensure_container d name) name)) = 1
          \<and> entries_with (\<lambda>n. n) (strip name)
              (categories (ensure_category (ensure_category d name) name)) = 1
          \<and> entries_with (\<lambda>n. n) (strip name)
              (subcategories (ensure_subcategory (ensure_subcategory d name) name)) = 1)
       \<and> (strip name = [] \<longrightarrow>
            ensure_container d name = d \<and> ensure_category d name = d
          \<and> ensure_subcategory d name = d)"
proof -
  have c1: "ensure_container (ensure_container d name) name = ensure_container d name"
    by (simp add: ensure_container_def Let_def insert_or_ignore_idem)
  have c2: "ensure_category (ensure_category d name) name = ensure_category d name"
    by (simp add: ensure_category_def Let_def insert_or_ignore_idem)
  have c3: "ensure_subcategory (ensure_subcategory d name) name = ensure_subcategory d name"
    by (simp add: ensure_subcategory_def Let_def insert_or_ignore_idem)
  have one: "entries_with fst (strip name)
               (containers (ensure_container (ensure_container d name) name)) = 1
          \<and> entries_with (\<lambda>n. n) (strip name)
               (categories (ensure_category (ensure_category d name) name)) = 1
          \<and> entries_with (\<lambda>n. n) (strip name)
               (subcategories (ensure_subcategory (ensure_subcategory d name) name)) = 1"
    if ne: "strip name \<noteq> []"
  proof -
    have "entries_with fst (strip name) (containers (ensure_container d name)) = 1"
      using ne assms(1) insert_or_ignore_one [of fst "containers d" "(strip name, strip name)"]
      by (simp add: ensure_container_def Let_def)
    moreover have "entries_with (\<lambda>n. n) (strip name) (categories (ensure_category d name)) = 1"
      using ne assms(2) insert_or_ignore_one [of "\<lambda>n. n" "categories d" "strip name"]
      by (simp add: ensure_category_def Let_def)
    moreover have "entries_with (\<lambda>n. n) (strip name) (subcategories (ensure_subcategory d name)) = 1"
      using ne assms(3) insert_or_ignore_one [of "\<lambda>n. n" "subcategories d" "strip name"]
      by (simp add: ensure_subcategory_def Let_def)
    ultimately show ?thesis by (simp add: c1 c2 c3)
  qed
  have none: "ensure_container d name = d \<and> ensure_category d name = d
          \<and> ensure_subcategory d name = d"
    if "strip name = []"
    using that by (simp add: ensure_container_def ensure_category_def ensure_subcategory_def)
  from c1 c2 c3 one none show ?thesis by blast
qed

theorem ensure_idempotent_witness:
  "distinct (map fst (containers ex_db)) \<and> distinct (categories ex_db)
   \<and> distinct (subcategories ex_db)
   \<and> strip '' C3 '' = ''C3''
   \<and> ensure_container (ensure_container ex_db '' C3 '') '' C3 '' = ensure_container ex_db '' C3 ''
   \<and> ensure_category (ensure_category ex_db '' C3 '') '' C3 '' = ensure_category ex_db '' C3 ''
   \<and> ensure_subcategory (ensure_subcategory ex_db '' C3 '') '' C3 ''
       = ensure_subcategory ex_db '' C3 ''
   \<and> entries_with fst ''C3''
       (containers (ensure_container (ensure_container ex_db '' C3 '') '' C3 '')) = 1
   \<and> entries_with (\<lambda>n. n) ''C3''
       (categories (ensure_category (ensure_category ex_db '' C3 '') '' C3 '')) = 1
   \<and> entries_with (\<lambda>n. n) ''C3''
       (subcategories (ensure_subcategory (ensure_subcategory ex_db '' C3 '') '' C3 '')) = 1"
proof -
  have h1: "distinct (map fst (containers ex_db))" by (simp add: ex_db_def)
  have h2: "distinct (categories ex_db)" by (simp add: ex_db_def)
  have h3: "distinct (subcategories ex_db)" by (simp add: ex_db_def)
  have s: "strip '' C3 '' = ''C3''" by code_simp
  then have ne: "strip '' C3 '' \<noteq> []" by simp
  note t = ensure_idempotent [OF h1 h2 h3, of "'' C3 ''"]
  from t have i: "ensure_container (ensure_container ex_db '' C3 '') '' C3 '' = ensure_container ex_db '' C3 ''"
      "ensure_category (ensure_category ex_db '' C3 '') '' C3 '' = ensure_category ex_db '' C3 ''"
      "ensure_subcategory (ensure_subcategory ex_db '' C3 '') '' C3 ''
         = ensure_subcategory ex_db '' C3 ''"
    by blast+
  from t ne have "entries_with fst (strip '' C3 '')
        (containers (ensure_container (ensure_container ex_db '' C3 '') '' C3 '')) = 1"
      "entries_with (\<lambda>n. n) (strip '' C3 '')
        (categories (ensure_category (ensure_category ex_db '' C3 '') '' C3 '')) = 1"
      "entries_with (\<lambda>n. n) (strip '' C3 '')
        (subcategories (ensure_subcategory (ensure_subcategory ex_db '' C3 '') '' C3 '')) = 1"
    by blast+
  then have e: "entries_with fst ''C3''
        (containers (ensure_container (ensure_container ex_db '' C3 '') '' C3 '')) = 1"
      "entries_with (\<lambda>n. n) ''C3''
        (categories (ensure_category (ensure_category ex_db '' C3 '') '' C3 '')) = 1"
      "entries_with (\<lambda>n. n) ''C3''
        (subcategories (ensure_subcategory (ensure_subcategory ex_db '' C3 '') '' C3 '')) = 1"
    by (simp_all only: s)
  show ?thesis
    by (intro conjI) (fact h1, fact h2, fact h3, fact s, fact i(1), fact i(2), fact i(3),
        fact e(1), fact e(2), fact e(3))
qed


section \<open>Editing and deleting\<close>






text \<open>
  C3. An edit request, reading or saving, whose field name is outside the allow-list is
  answered with status 400, and the store (parts and lookup tables) is left as it was.
\<close>

theorem invalid_field_rejected:
  assumes "field \<notin> ALLOWED_EDIT_FIELDS"
  shows "edit_cell d part_id field = (ErrorResponse 400 ''Invalid field'', d)
       \<and> save_cell d now part_id field v = (ErrorResponse 400 ''Invalid field'', d)"
  using assms by (simp add: edit_cell_def save_cell_def)

theorem invalid_field_rejected_witness:
  "''id'' \<notin> ALLOWED_EDIT_FIELDS
   \<and> (edit_cell ex_db 7 ''id'' = (ErrorResponse 400 ''Invalid field'', ex_db)
      \<and> save_cell ex_db ''2024-02-01 00:00:00'' 7 ''id'' ''42''
          = (ErrorResponse 400 ''Invalid field'', ex_db))"
proof -
  have h: "''id'' \<notin> ALLOWED_EDIT_FIELDS" by (simp add: ALLOWED_EDIT_FIELDS_def)
  show ?thesis by (rule conjI [OF h invalid_field_rejected [OF h]])
qed






section \<open>Quantities\<close>












lemma add_part_parts:
  "parts (snd (add_part d now c s de p k qty n ds pu)) =
     parts d @ [\<lparr>id_col = next_id d, category = strip c, subcategory = Some (strip s),
                 description = strip de, package = Some (strip p), container_id = Some (strip k),
                 quantity = SqlInteger (max qty 0), notes_col = Some (strip n),
                 datasheet_url = Some (strip ds), pinout_url = Some (strip pu), updated_at = now\<rparr>]"
  by (simp add: add_part_def Let_def ensure_parts next_id_ensure)




section \<open>The listing\<close>















text \<open>
  C10. The listing does not depend on white space around the free-text query: listing
  with a query and listing with the trimmed query give the same rows.
\<close>

theorem fetch_parts_query_strip:
  "fetch_parts d q category' container_id' limit = fetch_parts d (strip q) category' container_id' limit"
  by (simp add: fetch_parts_def strip_idem)

theorem fetch_parts_query_strip_witness:
  "fetch_parts ex_db ''  10k  '' [] [] 500 = fetch_parts ex_db (strip ''  10k  '') [] [] 500"
  by (rule fetch_parts_query_strip)


section \<open>Labels\<close>

lemma concat_map_pairs_length: "length (concat (map (\<lambda>c. [f c, g c]) xs)) = 2 * length xs"
  by (induction xs) auto

text \<open>
  C8. A label request with mode \<open>both\<close> and at least one container code renders, for
  each submitted code in order, an asset label whose QR payload is the base URL followed
  by \<open>/containers/\<close> and the code, then a content label whose text is the trimmed form
  field \<open>text_\<close> followed by the code, the empty text when the field is absent: two
  labels per code.
\<close>

theorem print_labels_both:
  assumes "code \<noteq> []"
  shows "print_labels qr_base64 form preset ''both'' code =
           LabelsPage preset
             (concat (map (\<lambda>c. [AssetLabel c (qr_base64 (''http://192.168.8.20:8001/containers/'' @ c)),
                                 ContentLabel c (strip (case form (''text_'' @ c) of
                                                          None \<Rightarrow> [] | Some t \<Rightarrow> t))]) code))
       \<and> length (concat (map (labels_for qr_base64 form ''both'') code)) = 2 * length code"
proof -
  have l: "labels_for qr_base64 form ''both'' =
     (\<lambda>c. [AssetLabel c (qr_base64 (''http://192.168.8.20:8001/containers/'' @ c)),
           ContentLabel c (strip (case form (''text_'' @ c) of None \<Rightarrow> [] | Some t \<Rightarrow> t))])"
    by (rule ext) (simp add: labels_for_def BASE_URL_def form_get_def)
  show ?thesis using assms
    by (simp add: print_labels_def l concat_map_pairs_length)
qed

theorem print_labels_both_witness:
  "[''B12''] \<noteq> []
   \<and> print_labels ex_qr (Map.empty(''text_B12'' \<mapsto> '' M3 screws '')) ''3348'' ''both'' [''B12'']
       = LabelsPage ''3348''
           [AssetLabel ''B12'' (ex_qr ''http://192.168.8.20:8001/containers/B12''),
            ContentLabel ''B12'' ''M3 screws'']"
proof -
  have h: "[''B12''] \<noteq> ([] :: string list)" by simp
  have s: "strip '' M3 screws '' = ''M3 screws''" by code_simp
  from print_labels_both [OF h, of ex_qr "Map.empty(''text_B12'' \<mapsto> '' M3 screws '')" "''3348''"]
  have "print_labels ex_qr (Map.empty(''text_B12'' \<mapsto> '' M3 screws '')) ''3348'' ''both'' [''B12'']
       = LabelsPage ''3348''
           [AssetLabel ''B12'' (ex_qr ''http://192.168.8.20:8001/containers/B12''),
            ContentLabel ''B12'' ''M3 screws'']"
    by (simp add: s)
  with h show ?thesis by simp
qed


section \<open>What the schema and the create handler do\<close>

text \<open>
  C1. On a new database file \<open>init_db\<close> creates the table \<open>parts\<close> alone, with nine
  columns: there is no table \<open>containers\<close>, \<open>categories\<close> or \<open>subcategories\<close>, and
  \<open>parts\<close> has no column \<open>datasheet_url\<close> or \<open>pinout_url\<close>. The inserts of
  \<open>add_part\<close> and of the three ensure operations are not accepted by that schema.
\<close>

theorem init_db_fresh_schema:
  "table_names (init_db empty_schema) = [''parts'']
   \<and> column_names (init_db empty_schema) ''parts'' =
       [''id'', ''category'', ''subcategory'', ''description'', ''package'', ''container_id'',
        ''quantity'', ''notes'', ''updated_at'']
   \<and> \<not> insert_accepted (init_db empty_schema) ''parts'' add_part_columns
   \<and> \<not> insert_accepted (init_db empty_schema) ''categories'' [''name'']
   \<and> \<not> insert_accepted (init_db empty_schema) ''containers'' [''code'', ''name'']
   \<and> \<not> insert_accepted (init_db empty_schema) ''subcategories'' [''name'']"
  by (simp add: init_db_def empty_schema_def table_names_def column_names_def insert_accepted_def
      create_table_if_not_exists_def create_index_if_not_exists_def add_part_columns_def)

text \<open>
  C5. A create request whose category and description are a single space satisfies every
  constraint \<open>PartCreate\<close> declares, and \<open>add_part\<close> stores a part whose category and
  description are empty.
\<close>

theorem add_part_blank_category:
  "PartCreate_valid \<lparr>pc_category = '' '', pc_subcategory = Some [], pc_description = '' '',
     pc_package = Some [], pc_container_id = Some [], pc_quantity = 0, pc_notes = Some []\<rparr>
   \<and> parts (snd (add_part empty_db ''2024-02-01 00:00:00'' '' '' [] '' '' [] [] 0 [] [] [])) =
       [\<lparr>id_col = 1, category = [], subcategory = Some [], description = [], package = Some [],
         container_id = Some [], quantity = SqlInteger 0, notes_col = Some [],
         datasheet_url = Some [], pinout_url = Some [], updated_at = ''2024-02-01 00:00:00''\<rparr>]"
  by (simp add: PartCreate_valid_def max_length_def add_part_parts empty_db_def next_id_def
      strip_def is_space_def)

end
